theory Spec2Isabelle
  imports Main
begin

section \<open>Values of the host language\<close>

text \<open>
  A property or a resolved value of the action may be missing (\<open>undefined\<close>), \<open>null\<close>,
  or hold a value. The source tells the three apart (\<open>=== undefined\<close>, \<open>=== null\<close>,
  \<open>?.\<close>, \<open>??\<close>), so the model keeps them apart too.
\<close>

datatype 'a nullable = Undefined | Null | Value 'a

text \<open>Optional chaining \<open>x?.f\<close>: \<open>undefined\<close> when \<open>x\<close> is \<open>null\<close> or \<open>undefined\<close>.\<close>

fun opt_chain :: "'a nullable \<Rightarrow> ('a \<Rightarrow> 'b nullable) \<Rightarrow> 'b nullable" where
  "opt_chain (Value x) f = f x"
| "opt_chain Undefined f = Undefined"
| "opt_chain Null f = Undefined"

text \<open>Nullish coalescing \<open>x ?? d\<close>.\<close>

fun nullish_coalesce :: "'a nullable \<Rightarrow> 'a \<Rightarrow> 'a" where
  "nullish_coalesce (Value x) d = x"
| "nullish_coalesce Undefined d = d"
| "nullish_coalesce Null d = d"

text \<open>
  The test \<open>if (x)\<close> on a property that holds a string: it passes for a non-empty string
  only, and the branch then reads that string.
\<close>

fun truthy_string :: "string nullable \<Rightarrow> string option" where
  "truthy_string (Value s) = (if s = [] then None else Some s)"
| "truthy_string Undefined = None"
| "truthy_string Null = None"

text \<open>The same test on a property that holds an object: every object passes.\<close>

fun truthy_object :: "'a nullable \<Rightarrow> 'a option" where
  "truthy_object (Value v) = Some v"
| "truthy_object Undefined = None"
| "truthy_object Null = None"

text \<open>\<open>a || b\<close> on strings: \<open>a\<close> unless it is the empty string.\<close>

definition or_string :: "string \<Rightarrow> string \<Rightarrow> string" where
  "or_string a b = (if a = [] then b else a)"

text \<open>\<open>Array.prototype.join\<close> on an array of strings.\<close>

fun join :: "string list \<Rightarrow> string \<Rightarrow> string" where
  "join [] sep = []"
| "join [x] sep = x"
| "join (x # y # ys) sep = x @ sep @ join (y # ys) sep"

text \<open>Values other than \<open>Error\<close> objects that a rejected promise may carry.\<close>

datatype js_value =
    JUndefined
  | JNull
  | JBoolean bool
  | JNumber int
  | JString string
  | JObject "(string \<times> js_value) list"

section \<open>The error class\<close>

record Error =
  name :: string
  message :: string

definition new_Error :: "string \<Rightarrow> Error" where
  "new_Error m = \<lparr>name = ''Error'', message = m\<rparr>"

text \<open>The validation-error tree: a top-level \<open>_errors\<close> list and nested trees by field.\<close>

datatype validation_errors =
  ValidationErrors (errors_field: "string list nullable")
                   (field_errors: "(string \<times> validation_errors) list")

datatype error_type = Server | Validation | Network

text \<open>
  The third constructor argument \<open>details?: unknown\<close>: absent, the validation-error tree,
  or the caught error.
\<close>

datatype details = NoDetails | ValidationDetails validation_errors | ErrorDetails Error

text \<open>\<open>class SafeActionError extends Error\<close>.\<close>

record SafeActionError = Error +
  type :: error_type
  details :: details

definition new_SafeActionError :: "string \<Rightarrow> error_type \<Rightarrow> details \<Rightarrow> SafeActionError" where
  "new_SafeActionError m t d =
     \<lparr>name = ''SafeActionError'', message = m, type = t, details = d\<rparr>"

text \<open>What a \<open>throw\<close> or a rejected promise carries.\<close>

datatype thrown =
    ThrownSafeActionError SafeActionError
  | ThrownError Error
  | ThrownValue js_value

fun instanceof_SafeActionError :: "thrown \<Rightarrow> bool" where
  "instanceof_SafeActionError (ThrownSafeActionError e) = True"
| "instanceof_SafeActionError (ThrownError e) = False"
| "instanceof_SafeActionError (ThrownValue v) = False"

fun instanceof_Error :: "thrown \<Rightarrow> bool" where
  "instanceof_Error (ThrownSafeActionError e) = True"
| "instanceof_Error (ThrownError e) = True"
| "instanceof_Error (ThrownValue v) = False"

section \<open>The action and the options of the hook\<close>

text \<open>The object an action resolves to; each of its three properties is optional.\<close>

record 'd action_result =
  data :: "'d nullable"
  serverError :: "string nullable"
  validationErrors :: "validation_errors nullable"

text \<open>
  Awaiting the action either yields its resolved value, which may itself be \<open>null\<close> or
  \<open>undefined\<close>, or raises what the promise was rejected with.
\<close>

datatype 'd awaited = Resolved "'d action_result nullable" | Rejected thrown

text \<open>
  A callback is caller code of type \<open>(x) => void\<close>. A call of it either returns or
  throws, and either way may have changed the caller's state \<open>'s\<close>. An array or an
  \<open>Error\<close> is handed over by reference, so a callback that returns also leaves the object
  it was handed in some state, which is what the code reads afterwards; for a string
  argument there is nothing to change and that component is not read.
\<close>

datatype ('a, 's) completion =
    is_Returns: Returns 'a 's
  | Throws thrown 's

type_synonym ('a, 's) callback = "'a \<Rightarrow> 's \<Rightarrow> ('a, 's) completion"

text \<open>\<open>cb?.(x)\<close>: nothing happens when the callback is not supplied.\<close>

fun call_optional :: "('a, 's) callback option \<Rightarrow> 'a \<Rightarrow> 's \<Rightarrow> ('a, 's) completion" where
  "call_optional None x s = Returns x s"
| "call_optional (Some f) x s = f x s"

text \<open>
  Values of the options object handed to the query engine. \<open>QueryFn\<close> and \<open>Retry\<close>
  stand for the two closures the hook builds (\<open>queryFn\<close> and \<open>retry\<close> below);
  \<open>Other\<close> is any value the caller supplies.
\<close>

datatype ('k, 'o) engine_value =
    QueryKey 'k
  | QueryFn
  | Retry
  | Num int
  | Bool bool
  | Other 'o

text \<open>
  \<open>UseSafeActionQueryOptions\<close>: the four properties the hook takes out by name, and
  \<open>queryOptions\<close>, the rest of the object.
\<close>

record ('i, 's, 'k, 'o) UseSafeActionQueryOptions =
  actionInput :: 'i
  onServerError :: "(string, 's) callback option"
  onValidationErrors :: "(string list, 's) callback option"
  onNetworkError :: "(Error, 's) callback option"
  queryOptions :: "string \<rightharpoonup> ('k, 'o) engine_value"

section \<open>The query function\<close>

text \<open>
  \<open>result.validationErrors\<close> as it is once \<open>onValidationErrors\<close> has returned. The
  callback was handed \<open>errors\<close>, which is the tree's own \<open>_errors\<close> array when the tree
  has one, and a fresh \<open>[]\<close> otherwise; so what the callback left in the array is in
  the tree in the first case only.
\<close>

definition validationErrors_after :: "validation_errors \<Rightarrow> string list \<Rightarrow> validation_errors" where
  "validationErrors_after ve errors =
     (case errors_field ve of
        Value l \<Rightarrow> ValidationErrors (Value errors) (field_errors ve)
      | Undefined \<Rightarrow> ve
      | Null \<Rightarrow> ve)"

text \<open>
  The body of the \<open>try\<close> block, after the action has resolved to \<open>result\<close>: the three
  checks in source order. \<open>Inl\<close> is a \<open>throw\<close>, \<open>Inr\<close> a \<open>return\<close>; the state is the
  caller's, as the callback that ran left it. A callback that throws ends the block with
  what it threw, before the \<open>throw new SafeActionError\<close> that follows it. The validation
  message is joined, and the details are read, after the callback has returned.
\<close>

definition classify ::
  "'d action_result nullable \<Rightarrow> ('i, 's, 'k, 'o) UseSafeActionQueryOptions \<Rightarrow> 's
     \<Rightarrow> 's \<times> (thrown + 'd)" where
  "classify result options s =
     (case truthy_string (opt_chain result serverError) of
        Some se \<Rightarrow>
          (case call_optional (onServerError options) se s of
             Throws ex s' \<Rightarrow> (s', Inl ex)
           | Returns se' s' \<Rightarrow>
               (s', Inl (ThrownSafeActionError (new_SafeActionError se Server NoDetails))))
      | None \<Rightarrow>
     (case truthy_object (opt_chain result validationErrors) of
        Some ve \<Rightarrow>
          (case call_optional (onValidationErrors options)
                  (nullish_coalesce (errors_field ve) []) s of
             Throws ex s' \<Rightarrow> (s', Inl ex)
           | Returns errors s' \<Rightarrow>
               (s', Inl (ThrownSafeActionError
                           (new_SafeActionError
                              (or_string (join errors '', '') ''Validation failed'')
                              Validation
                              (ValidationDetails (validationErrors_after ve errors))))))
      | None \<Rightarrow>
     (case opt_chain result data of
        Value d \<Rightarrow> (s, Inr d)
      | Undefined \<Rightarrow>
          (s, Inl (ThrownSafeActionError
                     (new_SafeActionError ''No data returned from action'' Server NoDetails)))
      | Null \<Rightarrow>
          (s, Inl (ThrownSafeActionError
                     (new_SafeActionError ''No data returned from action'' Server NoDetails))))))"

text \<open>The whole \<open>try\<close> block: await the action, then classify what it resolved to.\<close>

definition try_block ::
  "('i \<Rightarrow> 'd awaited) \<Rightarrow> ('i, 's, 'k, 'o) UseSafeActionQueryOptions \<Rightarrow> 's
     \<Rightarrow> 's \<times> (thrown + 'd)" where
  "try_block action options s =
     (case action (actionInput options) of
        Rejected e \<Rightarrow> (s, Inl e)
      | Resolved result \<Rightarrow> classify result options s)"

text \<open>
  The \<open>catch\<close> block has two branches: \<open>throw error\<close> under the test
  \<open>error instanceof SafeActionError\<close>, and the rest, which builds the network error.
\<close>

datatype catch_branch = RethrowBranch | NetworkBranch

text \<open>
  The \<open>catch\<close> block: the branch it takes, the state it leaves and what it throws. In
  the second branch \<open>onNetworkError\<close> is called outside any \<open>try\<close>, so what it throws
  leaves the query function as it is; when it returns, the message and the details are
  read from \<open>networkError\<close> as the callback left it. A \<open>SafeActionError\<close> is an \<open>Error\<close> as
  well, but the first test has already sent it back out, so that case of \<open>networkError\<close>
  is never computed.
\<close>

definition catch_block ::
  "thrown \<Rightarrow> ('i, 's, 'k, 'o) UseSafeActionQueryOptions \<Rightarrow> 's
     \<Rightarrow> catch_branch \<times> 's \<times> thrown" where
  "catch_block error options s =
     (if instanceof_SafeActionError error then (RethrowBranch, s, error)
      else
        (case call_optional (onNetworkError options)
                (case error of
                   ThrownError e \<Rightarrow> e
                 | ThrownSafeActionError e \<Rightarrow> Error.truncate e
                 | ThrownValue v \<Rightarrow> new_Error ''Unknown error occurred'') s of
           Throws ex s' \<Rightarrow> (NetworkBranch, s', ex)
         | Returns networkError s' \<Rightarrow>
             (NetworkBranch, s',
              ThrownSafeActionError
                (new_SafeActionError (''Network error: '' @ message networkError)
                   Network (ErrorDetails networkError)))))"

definition queryFn ::
  "('i \<Rightarrow> 'd awaited) \<Rightarrow> ('i, 's, 'k, 'o) UseSafeActionQueryOptions \<Rightarrow> 's
     \<Rightarrow> 's \<times> (thrown + 'd)" where
  "queryFn action options s =
     (case try_block action options s of
        (s', Inr d) \<Rightarrow> (s', Inr d)
      | (s', Inl error) \<Rightarrow>
          (case catch_block error options s' of (branch, s'', e) \<Rightarrow> (s'', Inl e)))"

text \<open>
  Whether a run takes the first branch of the \<open>catch\<close> block: the \<open>try\<close> block has
  thrown, and the \<open>catch\<close> block, run on what was thrown, reports that branch.
\<close>

definition rethrow_taken ::
  "('i \<Rightarrow> 'd awaited) \<Rightarrow> ('i, 's, 'k, 'o) UseSafeActionQueryOptions \<Rightarrow> 's \<Rightarrow> bool" where
  "rethrow_taken action options s =
     (case try_block action options s of
        (s', Inr d) \<Rightarrow> False
      | (s', Inl error) \<Rightarrow> fst (catch_block error options s') = RethrowBranch)"

section \<open>The retry policy\<close>

definition retry :: "nat \<Rightarrow> thrown \<Rightarrow> bool" where
  "retry failureCount error =
     (if (case error of ThrownSafeActionError e \<Rightarrow> type e = Validation | _ \<Rightarrow> False)
        then False
      else if (case error of ThrownSafeActionError e \<Rightarrow> type e = Server | _ \<Rightarrow> False)
        then False
      else failureCount < 3)"

section \<open>The options handed to the query engine\<close>

text \<open>
  The object literal passed to \<open>useQuery\<close>: the five properties the hook writes, then the
  spread \<open>...queryOptions\<close>, whose properties replace earlier ones of the same name.
\<close>

definition useQuery_options ::
  "'k \<Rightarrow> ('i, 's, 'k, 'o) UseSafeActionQueryOptions \<Rightarrow> (string \<rightharpoonup> ('k, 'o) engine_value)" where
  "useQuery_options queryKey options =
     [''queryKey'' \<mapsto> QueryKey queryKey,
      ''queryFn'' \<mapsto> QueryFn,
      ''retry'' \<mapsto> Retry,
      ''staleTime'' \<mapsto> Num (30 * 1000),
      ''throwOnError'' \<mapsto> Bool False] ++ queryOptions options"

section \<open>Test doubles\<close>

text \<open>
  The mock actions of the test suite: \<open>createMockAction\<close> resolves to the object it is
  given, the next three to an object with a single property, and
  \<open>mockResolvedValue\<close> / \<open>mockRejectedValue\<close> to any value or rejection.
\<close>

definition mockResolvedValue :: "'d action_result nullable \<Rightarrow> 'i \<Rightarrow> 'd awaited" where
  "mockResolvedValue r i = Resolved r"

definition mockRejectedValue :: "thrown \<Rightarrow> 'i \<Rightarrow> 'd awaited" where
  "mockRejectedValue e i = Rejected e"

definition createMockAction :: "'d action_result \<Rightarrow> 'i \<Rightarrow> 'd awaited" where
  "createMockAction returnValue i = Resolved (Value returnValue)"

definition createSuccessMockAction :: "'d \<Rightarrow> 'i \<Rightarrow> 'd awaited" where
  "createSuccessMockAction d i =
     Resolved (Value \<lparr>data = Value d, serverError = Undefined, validationErrors = Undefined\<rparr>)"

definition createErrorMockAction :: "string \<Rightarrow> 'i \<Rightarrow> 'd awaited" where
  "createErrorMockAction se i =
     Resolved (Value \<lparr>data = Undefined, serverError = Value se, validationErrors = Undefined\<rparr>)"

definition createValidationErrorMockAction :: "validation_errors \<Rightarrow> 'i \<Rightarrow> 'd awaited" where
  "createValidationErrorMockAction ve i =
     Resolved (Value \<lparr>data = Undefined, serverError = Undefined, validationErrors = Value ve\<rparr>)"

text \<open>
  Callbacks that append each call, with its argument, to a log, and then return with the
  argument untouched, return after changing it, or throw.
\<close>

datatype callback_event =
    ServerErrorCalled string
  | ValidationErrorsCalled "string list"
  | NetworkErrorCalled Error

definition record_server_error :: "(string, callback_event list) callback" where
  "record_server_error e log = Returns e (log @ [ServerErrorCalled e])"

definition record_validation_errors :: "(string list, callback_event list) callback" where
  "record_validation_errors e log = Returns e (log @ [ValidationErrorsCalled e])"

definition record_network_error :: "(Error, callback_event list) callback" where
  "record_network_error e log = Returns e (log @ [NetworkErrorCalled e])"

definition throwing_server_error :: "thrown \<Rightarrow> (string, callback_event list) callback" where
  "throwing_server_error ex e log = Throws ex (log @ [ServerErrorCalled e])"

definition throwing_validation_errors ::
  "thrown \<Rightarrow> (string list, callback_event list) callback" where
  "throwing_validation_errors ex e log = Throws ex (log @ [ValidationErrorsCalled e])"

definition throwing_network_error :: "thrown \<Rightarrow> (Error, callback_event list) callback" where
  "throwing_network_error ex e log = Throws ex (log @ [NetworkErrorCalled e])"

text \<open>\<open>errors.shift()\<close> in the callback: the first message is taken off the array.\<close>

definition shifting_validation_errors :: "(string list, callback_event list) callback" where
  "shifting_validation_errors e log = Returns (tl e) (log @ [ValidationErrorsCalled e])"

text \<open>\<open>error.message = m\<close> in the callback.\<close>

definition renaming_network_error :: "string \<Rightarrow> (Error, callback_event list) callback" where
  "renaming_network_error m e log = Returns (e\<lparr>message := m\<rparr>) (log @ [NetworkErrorCalled e])"

definition recording_options ::
  "(unit, callback_event list, unit, string) UseSafeActionQueryOptions" where
  "recording_options =
     \<lparr>actionInput = (),
      onServerError = Some record_server_error,
      onValidationErrors = Some record_validation_errors,
      onNetworkError = Some record_network_error,
      queryOptions = Map.empty\<rparr>"

text \<open>An options object with the three callbacks given and no engine option.\<close>

definition mock_options ::
  "(string, callback_event list) callback option
     \<Rightarrow> (string list, callback_event list) callback option
     \<Rightarrow> (Error, callback_event list) callback option
     \<Rightarrow> (unit, callback_event list, unit, string) UseSafeActionQueryOptions" where
  "mock_options se ve ne =
     \<lparr>actionInput = (), onServerError = se, onValidationErrors = ve, onNetworkError = ne,
      queryOptions = Map.empty\<rparr>"

section \<open>The validation message as the specification words it\<close>

text \<open>
  The specification's wording of the validation message, to compare with the source's
  \<open>errors.join(", ") || "Validation failed"\<close>: the list joined with \<open>", "\<close> if the
  list is non-empty, else the literal \<open>"Validation failed"\<close>.
\<close>

definition spec_validation_message :: "string list \<Rightarrow> string" where
  "spec_validation_message errors =
     (if errors \<noteq> [] then join errors '', '' else ''Validation failed'')"

section \<open>Unfolding the query function\<close>

lemma queryFn_resolved:
  "action (actionInput options) = Resolved result \<Longrightarrow>
   queryFn action options s =
     (case classify result options s of
        (s', Inr d) \<Rightarrow> (s', Inr d)
      | (s', Inl error) \<Rightarrow>
          (case catch_block error options s' of (branch, s'', e) \<Rightarrow> (s'', Inl e)))"
  by (simp add: queryFn_def try_block_def)

lemma queryFn_rejected:
  "action (actionInput options) = Rejected ex \<Longrightarrow>
   queryFn action options s =
     (case catch_block ex options s of (branch, s'', e) \<Rightarrow> (s'', Inl e))"
  by (simp add: queryFn_def try_block_def)

text \<open>The first branch of the \<open>catch\<close> block is taken under its test and no other way.\<close>

lemma catch_block_branch:
  "fst (catch_block error options s) = RethrowBranch \<longleftrightarrow> instanceof_SafeActionError error"
  by (simp add: catch_block_def split: completion.splits)

lemma catch_block_rethrow:
  "instanceof_SafeActionError error \<Longrightarrow> catch_block error options s = (RethrowBranch, s, error)"
  by (simp add: catch_block_def)

text \<open>
  With callbacks that return, whatever the three checks throw is a \<open>SafeActionError\<close>.
\<close>

lemma classify_throws_SafeActionError:
  assumes "\<forall>x. is_Returns (call_optional (onServerError options) x s)"
      and "\<forall>x. is_Returns (call_optional (onValidationErrors options) x s)"
      and "snd (classify result options s) = Inl error"
  shows "instanceof_SafeActionError error"
proof -
  have a: "\<And>x. \<exists>y t. call_optional (onServerError options) x s = Returns y t"
    using assms(1) by (metis completion.collapse)
  have b: "\<And>x. \<exists>y t. call_optional (onValidationErrors options) x s = Returns y t"
    using assms(2) by (metis completion.collapse)
  show ?thesis
  proof (cases "truthy_string (opt_chain result serverError)")
    case (Some se)
    obtain y t where "call_optional (onServerError options) se s = Returns y t"
      using a by blast
    with Some assms(3) show ?thesis by (auto simp add: classify_def)
  next
    case None
    show ?thesis
    proof (cases "truthy_object (opt_chain result validationErrors)")
      case (Some ve)
      obtain y t where
        "call_optional (onValidationErrors options) (nullish_coalesce (errors_field ve) []) s
           = Returns y t"
        using b by blast
      with None Some assms(3) show ?thesis by (auto simp add: classify_def)
    next
      case n: None
      with None assms(3) show ?thesis
        by (auto simp add: classify_def split: nullable.splits)
    qed
  qed
qed

text \<open>With the separator \<open>", "\<close>, only the empty list and \<open>[""]\<close> join to the empty string.\<close>

lemma join_comma_empty_iff: "join xs '', '' = [] \<longleftrightarrow> xs = [] \<or> xs = [[]]"
  by (induction xs "'', ''" rule: join.induct) auto

section \<open>Server errors come first\<close>

text \<open>
  C1, amended. When the action resolves to an object whose \<open>serverError\<close> is a non-empty
  string \<open>S\<close>, whatever its other properties hold, \<open>onServerError\<close> (if supplied) is
  called with \<open>S\<close>, and provided that call returns, the query function throws a
  \<open>SafeActionError\<close> of type \<open>server\<close> with message \<open>S\<close> and no details, the caller's
  state being what that one call left. Data set beside the server error does not turn
  the outcome into a success.
\<close>

theorem server_error_first:
  assumes "action (actionInput options) = Resolved (Value r)"
      and "serverError r = Value S"
      and "S \<noteq> []"
      and "call_optional (onServerError options) S s = Returns S' s'"
  shows "queryFn action options s =
           (s', Inl (ThrownSafeActionError
                       \<lparr>name = ''SafeActionError'', message = S, type = Server,
                        details = NoDetails\<rparr>))"
  using assms
  by (simp add: queryFn_resolved classify_def catch_block_def new_SafeActionError_def)

text \<open>
  At an outcome with both \<open>serverError\<close> and \<open>data\<close> set (and validation errors too), with
  the three recording callbacks: the log holds the one call of \<open>onServerError\<close>.
\<close>

theorem server_error_first_witness:
  "''Server error occurred'' \<noteq> []
   \<and> call_optional (onServerError recording_options) ''Server error occurred'' []
       = Returns ''Server error occurred'' [ServerErrorCalled ''Server error occurred'']
   \<and> queryFn
        (createMockAction
           \<lparr>data = Value (1::int), serverError = Value ''Server error occurred'',
            validationErrors = Value (ValidationErrors (Value [''Invalid input'']) [])\<rparr>)
        recording_options []
     = ([ServerErrorCalled ''Server error occurred''],
        Inl (ThrownSafeActionError
               \<lparr>name = ''SafeActionError'', message = ''Server error occurred'',
                type = Server, details = NoDetails\<rparr>))"
  using server_error_first
    [where action = "createMockAction
           \<lparr>data = Value (1::int), serverError = Value ''Server error occurred'',
            validationErrors = Value (ValidationErrors (Value [''Invalid input'']) [])\<rparr>"
       and options = recording_options
       and r = "\<lparr>data = Value (1::int), serverError = Value ''Server error occurred'',
            validationErrors = Value (ValidationErrors (Value [''Invalid input'']) [])\<rparr>"
       and S = "''Server error occurred''" and s = "[]"
       and S' = "''Server error occurred''"
       and s' = "[ServerErrorCalled ''Server error occurred'']"]
  by (simp add: createMockAction_def recording_options_def record_server_error_def)

text \<open>
  The claim as first worded holds for every callback. \<open>onServerError\<close> is called inside
  the \<open>try\<close> block: when it throws an \<open>Error\<close>, the \<open>catch\<close> block gets that error in
  place of the server error, calls \<open>onNetworkError\<close> and throws a network error.
\<close>

theorem server_error_callback_counterexample:
  "queryFn (createErrorMockAction ''Server error occurred'' :: unit \<Rightarrow> unit awaited)
     (mock_options
        (Some (throwing_server_error
                 (ThrownError \<lparr>name = ''Error'', message = ''callback failed''\<rparr>)))
        (Some record_validation_errors) (Some record_network_error))
     []
   = ([ServerErrorCalled ''Server error occurred'',
       NetworkErrorCalled \<lparr>name = ''Error'', message = ''callback failed''\<rparr>],
      Inl (ThrownSafeActionError
             \<lparr>name = ''SafeActionError'', message = ''Network error: callback failed'',
              type = Network,
              details = ErrorDetails \<lparr>name = ''Error'', message = ''callback failed''\<rparr>\<rparr>))"
  by (simp add: queryFn_def try_block_def classify_def catch_block_def
        createErrorMockAction_def mock_options_def throwing_server_error_def
        record_network_error_def new_SafeActionError_def)

section \<open>The retry policy by kind of error\<close>

text \<open>
  C2. For every number of failures \<open>n\<close> and every classified error \<open>e\<close>, the retry policy
  answers no when \<open>e\<close> is a validation error, no when it is a server error, and for a
  network error yes exactly when \<open>n < 3\<close>; so it answers no at \<open>(0, validation)\<close> and
  \<open>(0, server)\<close>, yes at \<open>(2, network)\<close> and no at \<open>(3, network)\<close>.
\<close>

theorem retry_by_kind:
  "retry n (ThrownSafeActionError e) =
     (case type e of Validation \<Rightarrow> False | Server \<Rightarrow> False | Network \<Rightarrow> n < 3)
   \<and> retry 0 (ThrownSafeActionError (new_SafeActionError m Validation d)) = False
   \<and> retry 0 (ThrownSafeActionError (new_SafeActionError m Server d)) = False
   \<and> retry 2 (ThrownSafeActionError (new_SafeActionError m Network d)) = True
   \<and> retry 3 (ThrownSafeActionError (new_SafeActionError m Network d)) = False"
  by (cases "type e") (simp_all add: retry_def new_SafeActionError_def)

section \<open>Validation errors come second\<close>

text \<open>
  C3, amended. When the action resolves to an object with no populated \<open>serverError\<close>
  and a validation-error tree \<open>V\<close>, let \<open>errors\<close> be the top-level \<open>_errors\<close> list of
  \<open>V\<close> (the empty list when it is absent). \<open>onValidationErrors\<close> (if supplied) is called
  with \<open>errors\<close>, and provided that call returns and leaves the list as it was, the query
  function throws a \<open>SafeActionError\<close> of type \<open>validation\<close> whose details are exactly
  \<open>V\<close> and whose message is \<open>errors\<close> joined with \<open>", "\<close> if that joined string is
  non-empty, else \<open>"Validation failed"\<close>; the caller's state is what that one call left.
  This is the message of the specification for every list but \<open>[""]\<close>.
\<close>

theorem validation_error_second:
  assumes "action (actionInput options) = Resolved (Value r)"
      and "serverError r = Undefined \<or> serverError r = Null \<or> serverError r = Value []"
      and "validationErrors r = Value V"
      and "errors = (case errors_field V of Value l \<Rightarrow> l | Undefined \<Rightarrow> [] | Null \<Rightarrow> [])"
      and "call_optional (onValidationErrors options) errors s = Returns errors s'"
  shows "queryFn action options s =
           (s', Inl (ThrownSafeActionError
                       \<lparr>name = ''SafeActionError'',
                        message = (if join errors '', '' \<noteq> [] then join errors '', ''
                                   else ''Validation failed''),
                        type = Validation, details = ValidationDetails V\<rparr>))
         \<and> (errors \<noteq> [[]] \<longrightarrow>
              (if join errors '', '' \<noteq> [] then join errors '', '' else ''Validation failed'')
                = spec_validation_message errors)"
proof
  have v: "validationErrors_after V errors = V"
    using assms(4) by (cases V; cases "errors_field V") (simp_all add: validationErrors_after_def)
  have c: "call_optional (onValidationErrors options) (nullish_coalesce (errors_field V) []) s
             = Returns errors s'"
    using assms(4,5) by (cases "errors_field V") simp_all
  show "queryFn action options s =
           (s', Inl (ThrownSafeActionError
                       \<lparr>name = ''SafeActionError'',
                        message = (if join errors '', '' \<noteq> [] then join errors '', ''
                                   else ''Validation failed''),
                        type = Validation, details = ValidationDetails V\<rparr>))"
    using assms(1,2,3) v c
    by (auto simp add: queryFn_resolved classify_def catch_block_def new_SafeActionError_def
          or_string_def)
  show "errors \<noteq> [[]] \<longrightarrow>
          (if join errors '', '' \<noteq> [] then join errors '', '' else ''Validation failed'')
            = spec_validation_message errors"
    by (auto simp add: spec_validation_message_def join_comma_empty_iff)
qed

theorem validation_error_second_witness:
  "call_optional (onValidationErrors recording_options) [''a'', ''b''] []
     = Returns [''a'', ''b''] [ValidationErrorsCalled [''a'', ''b'']]
   \<and> queryFn
     (createValidationErrorMockAction
        (ValidationErrors (Value [''a'', ''b''])
           [(''username'', ValidationErrors (Value [''Too short'']) [])]))
     recording_options []
   = ([ValidationErrorsCalled [''a'', ''b'']],
      Inl (ThrownSafeActionError
             \<lparr>name = ''SafeActionError'', message = ''a, b'', type = Validation,
              details = ValidationDetails
                (ValidationErrors (Value [''a'', ''b''])
                   [(''username'', ValidationErrors (Value [''Too short'']) [])])\<rparr>))
   \<and> spec_validation_message [''a'', ''b''] = ''a, b''"
  using validation_error_second
    [where action = "createValidationErrorMockAction
        (ValidationErrors (Value [''a'', ''b''])
           [(''username'', ValidationErrors (Value [''Too short'']) [])])"
       and options = recording_options
       and r = "\<lparr>data = Undefined, serverError = Undefined,
                  validationErrors = Value (ValidationErrors (Value [''a'', ''b''])
                    [(''username'', ValidationErrors (Value [''Too short'']) [])])\<rparr>"
       and V = "ValidationErrors (Value [''a'', ''b''])
           [(''username'', ValidationErrors (Value [''Too short'']) [])]"
       and errors = "[''a'', ''b'']" and s = "[]"
       and s' = "[ValidationErrorsCalled [''a'', ''b'']]"]
  by (simp add: createValidationErrorMockAction_def recording_options_def
        record_validation_errors_def spec_validation_message_def)

text \<open>
  The claim as first worded fails in three ways. It takes the joined list as the message
  whenever the list is non-empty: the list \<open>[""]\<close> is non-empty and joins to the empty
  string, and the source then falls back to \<open>"Validation failed"\<close>. It holds for every
  callback: \<open>onValidationErrors\<close> is called inside the \<open>try\<close> block, and when it throws
  an \<open>Error\<close> the outcome is a network error without the tree. And the message is joined
  after the callback was handed the array itself: a callback that takes the first of
  \<open>["a", "b"]\<close> off leaves the message \<open>"b"\<close>, and details that are no longer the tree
  the action resolved to.
\<close>

theorem validation_message_counterexample:
  "queryFn (createValidationErrorMockAction (ValidationErrors (Value ['''']) []))
     recording_options []
   = ([ValidationErrorsCalled ['''']],
      Inl (ThrownSafeActionError
             \<lparr>name = ''SafeActionError'', message = ''Validation failed'', type = Validation,
              details = ValidationDetails (ValidationErrors (Value ['''']) [])\<rparr>))
   \<and> [''''] \<noteq> ([] :: string list)
   \<and> spec_validation_message [''''] = ''''
   \<and> spec_validation_message [''''] \<noteq> ''Validation failed''
   \<and> queryFn
        (createValidationErrorMockAction (ValidationErrors (Value [''a'', ''b'']) [])
           :: unit \<Rightarrow> unit awaited)
        (mock_options (Some record_server_error)
           (Some (throwing_validation_errors
                    (ThrownError \<lparr>name = ''Error'', message = ''callback failed''\<rparr>)))
           (Some record_network_error))
        []
     = ([ValidationErrorsCalled [''a'', ''b''],
         NetworkErrorCalled \<lparr>name = ''Error'', message = ''callback failed''\<rparr>],
        Inl (ThrownSafeActionError
               \<lparr>name = ''SafeActionError'', message = ''Network error: callback failed'',
                type = Network,
                details = ErrorDetails \<lparr>name = ''Error'', message = ''callback failed''\<rparr>\<rparr>))
   \<and> queryFn
        (createValidationErrorMockAction (ValidationErrors (Value [''a'', ''b'']) [])
           :: unit \<Rightarrow> unit awaited)
        (mock_options (Some record_server_error) (Some shifting_validation_errors)
           (Some record_network_error))
        []
     = ([ValidationErrorsCalled [''a'', ''b'']],
        Inl (ThrownSafeActionError
               \<lparr>name = ''SafeActionError'', message = ''b'', type = Validation,
                details = ValidationDetails (ValidationErrors (Value [''b'']) [])\<rparr>))"
  by (simp add: queryFn_def try_block_def classify_def catch_block_def
        createValidationErrorMockAction_def recording_options_def mock_options_def
        record_validation_errors_def throwing_validation_errors_def
        shifting_validation_errors_def record_network_error_def validationErrors_after_def
        new_SafeActionError_def or_string_def spec_validation_message_def)

section \<open>Rejections become network errors\<close>

text \<open>
  C4, amended. When the action rejects with a value \<open>ex\<close> that is not already a
  \<open>SafeActionError\<close>, let \<open>networkError\<close> be \<open>ex\<close> itself if it is an \<open>Error\<close>, and a
  new \<open>Error\<close> with message \<open>"Unknown error occurred"\<close> otherwise. \<open>onNetworkError\<close> (if
  supplied) is called with \<open>networkError\<close>, and provided that call returns and leaves
  the error as it was, the query function throws a \<open>SafeActionError\<close> of type
  \<open>network\<close> with message \<open>"Network error: "\<close> followed by the message of
  \<open>networkError\<close> and with details \<open>networkError\<close>; the caller's state is what that one
  call left.
\<close>

theorem network_error_wrapped:
  assumes "action (actionInput options) = Rejected ex"
      and "\<not> instanceof_SafeActionError ex"
      and "networkError =
             (case ex of
                ThrownError e \<Rightarrow> e
              | ThrownSafeActionError e \<Rightarrow>
                  \<lparr>name = ''Error'', message = ''Unknown error occurred''\<rparr>
              | ThrownValue v \<Rightarrow> \<lparr>name = ''Error'', message = ''Unknown error occurred''\<rparr>)"
      and "call_optional (onNetworkError options) networkError s = Returns networkError s'"
  shows "queryFn action options s =
           (s', Inl (ThrownSafeActionError
                       \<lparr>name = ''SafeActionError'',
                        message = ''Network error: '' @ message networkError,
                        type = Network, details = ErrorDetails networkError\<rparr>))"
  using assms
  by (cases ex)
     (simp_all add: queryFn_rejected catch_block_def new_SafeActionError_def new_Error_def)

text \<open>
  At a rejection with \<open>new Error("Network failure")\<close>, and at a rejection with a string,
  which is no \<open>Error\<close>.
\<close>

theorem network_error_wrapped_witness:
  "\<not> instanceof_SafeActionError (ThrownError \<lparr>name = ''Error'', message = ''Network failure''\<rparr>)
   \<and> call_optional (onNetworkError recording_options)
         \<lparr>name = ''Error'', message = ''Network failure''\<rparr> []
       = Returns \<lparr>name = ''Error'', message = ''Network failure''\<rparr>
           [NetworkErrorCalled \<lparr>name = ''Error'', message = ''Network failure''\<rparr>]
   \<and> queryFn (mockRejectedValue (ThrownError \<lparr>name = ''Error'', message = ''Network failure''\<rparr>)
                 :: unit \<Rightarrow> unit awaited)
        recording_options []
     = ([NetworkErrorCalled \<lparr>name = ''Error'', message = ''Network failure''\<rparr>],
        Inl (ThrownSafeActionError
               \<lparr>name = ''SafeActionError'', message = ''Network error: Network failure'',
                type = Network,
                details = ErrorDetails \<lparr>name = ''Error'', message = ''Network failure''\<rparr>\<rparr>))
   \<and> queryFn (mockRejectedValue (ThrownValue (JString ''timeout''))
                 :: unit \<Rightarrow> unit awaited)
        recording_options []
     = ([NetworkErrorCalled \<lparr>name = ''Error'', message = ''Unknown error occurred''\<rparr>],
        Inl (ThrownSafeActionError
               \<lparr>name = ''SafeActionError'',
                message = ''Network error: Unknown error occurred'',
                type = Network,
                details = ErrorDetails
                  \<lparr>name = ''Error'', message = ''Unknown error occurred''\<rparr>\<rparr>))"
  using network_error_wrapped
    [where action = "mockRejectedValue
                       (ThrownError \<lparr>name = ''Error'', message = ''Network failure''\<rparr>)
                     :: unit \<Rightarrow> unit awaited"
       and options = recording_options
       and ex = "ThrownError \<lparr>name = ''Error'', message = ''Network failure''\<rparr>"
       and networkError = "\<lparr>name = ''Error'', message = ''Network failure''\<rparr>"
       and s = "[]"
       and s' = "[NetworkErrorCalled \<lparr>name = ''Error'', message = ''Network failure''\<rparr>]"]
    network_error_wrapped
    [where action = "mockRejectedValue (ThrownValue (JString ''timeout''))
                     :: unit \<Rightarrow> unit awaited"
       and options = recording_options
       and ex = "ThrownValue (JString ''timeout'')"
       and networkError = "\<lparr>name = ''Error'', message = ''Unknown error occurred''\<rparr>"
       and s = "[]"
       and s' = "[NetworkErrorCalled
                    \<lparr>name = ''Error'', message = ''Unknown error occurred''\<rparr>]"]
  by (simp add: mockRejectedValue_def recording_options_def record_network_error_def)

text \<open>
  The claim as first worded holds for every callback. \<open>onNetworkError\<close> is called in
  the \<open>catch\<close> block, outside any \<open>try\<close>: when it throws, what it throws leaves the
  query function as it is, and no \<open>SafeActionError\<close> is built. And the message is read
  after the callback was handed the error itself: a callback that sets its message
  leaves a network error with that message, and details that are no longer the error
  the action rejected with.
\<close>

theorem network_error_counterexample:
  "queryFn
     (mockRejectedValue (ThrownError \<lparr>name = ''Error'', message = ''Network failure''\<rparr>)
        :: unit \<Rightarrow> unit awaited)
     (mock_options (Some record_server_error) (Some record_validation_errors)
        (Some (throwing_network_error
                 (ThrownError \<lparr>name = ''Error'', message = ''callback failed''\<rparr>))))
     []
   = ([NetworkErrorCalled \<lparr>name = ''Error'', message = ''Network failure''\<rparr>],
      Inl (ThrownError \<lparr>name = ''Error'', message = ''callback failed''\<rparr>))
   \<and> \<not> instanceof_SafeActionError
         (ThrownError \<lparr>name = ''Error'', message = ''callback failed''\<rparr>)
   \<and> queryFn
        (mockRejectedValue (ThrownError \<lparr>name = ''Error'', message = ''Network failure''\<rparr>)
           :: unit \<Rightarrow> unit awaited)
        (mock_options (Some record_server_error) (Some record_validation_errors)
           (Some (renaming_network_error ''changed'')))
        []
     = ([NetworkErrorCalled \<lparr>name = ''Error'', message = ''Network failure''\<rparr>],
        Inl (ThrownSafeActionError
               \<lparr>name = ''SafeActionError'', message = ''Network error: changed'',
                type = Network,
                details = ErrorDetails \<lparr>name = ''Error'', message = ''changed''\<rparr>\<rparr>))"
  by (simp add: queryFn_def try_block_def catch_block_def mockRejectedValue_def
        mock_options_def throwing_network_error_def renaming_network_error_def
        new_SafeActionError_def)

section \<open>Missing data is a server error\<close>

text \<open>
  C5. When the action resolves to an object with no populated \<open>serverError\<close>, no
  populated \<open>validationErrors\<close> and a \<open>data\<close> property that is \<open>undefined\<close> or \<open>null\<close>,
  the query function throws a \<open>SafeActionError\<close> of type \<open>server\<close> with message
  \<open>"No data returned from action"\<close> and no details, no callback is called, and the retry
  policy answers no for that error at every failure count.
\<close>

theorem missing_data_is_server_error:
  assumes "action (actionInput options) = Resolved (Value r)"
      and "serverError r = Undefined \<or> serverError r = Null \<or> serverError r = Value []"
      and "validationErrors r = Undefined \<or> validationErrors r = Null"
      and "data r = Undefined \<or> data r = Null"
  shows "queryFn action options s =
           (s, Inl (ThrownSafeActionError
                      \<lparr>name = ''SafeActionError'', message = ''No data returned from action'',
                       type = Server, details = NoDetails\<rparr>))
         \<and> retry n (ThrownSafeActionError
                      \<lparr>name = ''SafeActionError'', message = ''No data returned from action'',
                       type = Server, details = NoDetails\<rparr>) = False"
  using assms
  by (auto simp add: queryFn_resolved classify_def catch_block_def new_SafeActionError_def
        retry_def)

theorem missing_data_is_server_error_witness:
  "queryFn
     (createMockAction
        \<lparr>data = Null :: unit nullable, serverError = Undefined, validationErrors = Undefined\<rparr>)
     recording_options []
   = ([], Inl (ThrownSafeActionError
                 \<lparr>name = ''SafeActionError'', message = ''No data returned from action'',
                  type = Server, details = NoDetails\<rparr>))
   \<and> retry 0 (ThrownSafeActionError
                 \<lparr>name = ''SafeActionError'', message = ''No data returned from action'',
                  type = Server, details = NoDetails\<rparr>) = False"
  using missing_data_is_server_error
    [where action = "createMockAction
        \<lparr>data = Null :: unit nullable, serverError = Undefined, validationErrors = Undefined\<rparr>"
       and options = recording_options
       and r = "\<lparr>data = Null :: unit nullable, serverError = Undefined,
                  validationErrors = Undefined\<rparr>"
       and s = "[]" and n = 0]
  by (simp add: createMockAction_def recording_options_def)

section \<open>When the catch block rethrows\<close>

text \<open>
  C6, amended. The \<open>catch\<close> block's first branch, which rethrows a \<open>SafeActionError\<close> as
  it is, is reachable: a run takes it exactly when what its \<open>try\<close> block throws is a
  \<open>SafeActionError\<close>. On a rejection that is when the rejected value is one. After the
  action has resolved, and with \<open>onServerError\<close> and \<open>onValidationErrors\<close> that return,
  it is every run that fails, since the three \<open>throw\<close> statements of the checks are
  inside the \<open>try\<close> block, and no run that succeeds. Whenever the branch is taken, the
  error and the caller's state leave the query function as the \<open>try\<close> block left them:
  nothing is wrapped a second time and no further callback runs.
\<close>

theorem rethrow_taken_iff:
  "rethrow_taken action options s =
     (case snd (try_block action options s) of
        Inl error \<Rightarrow> instanceof_SafeActionError error
      | Inr d \<Rightarrow> False)
   \<and> (action (actionInput options) = Rejected ex \<longrightarrow>
      rethrow_taken action options s = instanceof_SafeActionError ex)
   \<and> (action (actionInput options) = Resolved result
        \<and> (\<forall>x. is_Returns (call_optional (onServerError options) x s))
        \<and> (\<forall>x. is_Returns (call_optional (onValidationErrors options) x s)) \<longrightarrow>
      rethrow_taken action options s = isl (snd (queryFn action options s)))
   \<and> (rethrow_taken action options s \<longrightarrow>
      queryFn action options s = try_block action options s)"
proof (intro conjI impI)
  obtain s' out where b: "try_block action options s = (s', out)"
    by (cases "try_block action options s")
  then show "rethrow_taken action options s =
     (case snd (try_block action options s) of
        Inl error \<Rightarrow> instanceof_SafeActionError error
      | Inr d \<Rightarrow> False)"
    by (cases out) (simp_all add: rethrow_taken_def catch_block_branch)
next
  assume "action (actionInput options) = Rejected ex"
  then show "rethrow_taken action options s = instanceof_SafeActionError ex"
    by (simp add: rethrow_taken_def try_block_def catch_block_branch)
next
  assume h: "action (actionInput options) = Resolved result
        \<and> (\<forall>x. is_Returns (call_optional (onServerError options) x s))
        \<and> (\<forall>x. is_Returns (call_optional (onValidationErrors options) x s))"
  obtain s' out where c: "classify result options s = (s', out)"
    by (cases "classify result options s")
  show "rethrow_taken action options s = isl (snd (queryFn action options s))"
  proof (cases out)
    case (Inl error)
    with c h have i: "instanceof_SafeActionError error"
      using classify_throws_SafeActionError [of options s result error] by simp
    with h c Inl show ?thesis
      by (simp add: rethrow_taken_def queryFn_def try_block_def catch_block_rethrow)
  next
    case (Inr d)
    with h c show ?thesis
      by (simp add: rethrow_taken_def queryFn_def try_block_def)
  qed
next
  assume t: "rethrow_taken action options s"
  obtain s' out where b: "try_block action options s = (s', out)"
    by (cases "try_block action options s")
  show "queryFn action options s = try_block action options s"
  proof (cases out)
    case (Inl error)
    with t b have "instanceof_SafeActionError error"
      by (simp add: rethrow_taken_def catch_block_branch)
    with b Inl show ?thesis
      by (simp add: queryFn_def catch_block_rethrow)
  next
    case (Inr d)
    with t b show ?thesis by (simp add: rethrow_taken_def)
  qed
qed

text \<open>
  At an action that resolves to a validation error, with callbacks that return, the
  branch is taken; at one that rejects with a plain \<open>Error\<close> it is not.
\<close>

theorem rethrow_taken_iff_witness:
  "(\<forall>x. is_Returns (call_optional (onServerError recording_options) x []))
   \<and> (\<forall>x. is_Returns (call_optional (onValidationErrors recording_options) x []))
   \<and> rethrow_taken
     (createValidationErrorMockAction (ValidationErrors (Value [''Invalid input'']) [])
        :: unit \<Rightarrow> unit awaited)
     recording_options []
   \<and> isl (snd (queryFn
        (createValidationErrorMockAction (ValidationErrors (Value [''Invalid input'']) [])
           :: unit \<Rightarrow> unit awaited)
        recording_options []))
   \<and> queryFn
        (createValidationErrorMockAction (ValidationErrors (Value [''Invalid input'']) [])
           :: unit \<Rightarrow> unit awaited)
        recording_options []
     = try_block
        (createValidationErrorMockAction (ValidationErrors (Value [''Invalid input'']) [])
           :: unit \<Rightarrow> unit awaited)
        recording_options []
   \<and> \<not> rethrow_taken
        (mockRejectedValue (ThrownError \<lparr>name = ''Error'', message = ''Network failure''\<rparr>)
           :: unit \<Rightarrow> unit awaited)
        recording_options []"
  using rethrow_taken_iff
    [where action = "createValidationErrorMockAction
                       (ValidationErrors (Value [''Invalid input'']) [])
                     :: unit \<Rightarrow> unit awaited"
       and options = recording_options and s = "[]"
       and result = "Value \<lparr>data = Undefined, serverError = Undefined,
                      validationErrors = Value (ValidationErrors (Value [''Invalid input'']) [])\<rparr>"]
    rethrow_taken_iff
    [where action = "mockRejectedValue
                       (ThrownError \<lparr>name = ''Error'', message = ''Network failure''\<rparr>)
                     :: unit \<Rightarrow> unit awaited"
       and options = recording_options and s = "[]"
       and ex = "ThrownError \<lparr>name = ''Error'', message = ''Network failure''\<rparr>"]
  by (simp add: createValidationErrorMockAction_def mockRejectedValue_def recording_options_def
        record_server_error_def record_validation_errors_def
        try_block_def classify_def new_SafeActionError_def)

text \<open>
  The claim as first worded has the branch taken on no run at all. A run whose action
  resolves to a server error takes it.
\<close>

theorem rethrow_unreachable_counterexample:
  "rethrow_taken (createErrorMockAction ''Server error occurred'' :: unit \<Rightarrow> unit awaited)
     recording_options []"
  by (simp add: rethrow_taken_def try_block_def classify_def catch_block_def
        createErrorMockAction_def recording_options_def record_server_error_def)

section \<open>Success\<close>

text \<open>
  C7. When the action resolves to an object with no populated \<open>serverError\<close>, no
  populated \<open>validationErrors\<close> and a \<open>data\<close> property holding a value \<open>d\<close>, the query
  function returns exactly \<open>d\<close>, whatever \<open>d\<close> is, and no callback is called.
\<close>

theorem success_returns_data:
  assumes "action (actionInput options) = Resolved (Value r)"
      and "serverError r = Undefined \<or> serverError r = Null \<or> serverError r = Value []"
      and "validationErrors r = Undefined \<or> validationErrors r = Null"
      and "data r = Value d"
  shows "queryFn action options s = (s, Inr d)"
  using assms
  by (auto simp add: queryFn_resolved classify_def)

text \<open>At the payload \<open>{ id: 1, message: "Success!" }\<close>, with the recording callbacks.\<close>

theorem success_returns_data_witness:
  "queryFn (createSuccessMockAction ((1::int), ''Success!'')) recording_options []
   = ([], Inr (1, ''Success!''))"
  using success_returns_data
    [where action = "createSuccessMockAction ((1::int), ''Success!'')"
       and options = recording_options
       and r = "\<lparr>data = Value ((1::int), ''Success!''), serverError = Undefined,
                  validationErrors = Undefined\<rparr>"
       and d = "((1::int), ''Success!'')" and s = "[]"]
  by (simp add: createSuccessMockAction_def)

section \<open>Defaults and overrides of the engine options\<close>

text \<open>
  C8. In the options handed to the query engine, \<open>staleTime\<close> is 30000 and
  \<open>throwOnError\<close> is \<open>false\<close> unless the caller's options set them, and every option
  the caller supplies, these two included, arrives with the caller's value.
\<close>

theorem engine_options_merge:
  "(queryOptions options ''staleTime'' = None \<longrightarrow>
      useQuery_options queryKey options ''staleTime'' = Some (Num 30000))
   \<and> (queryOptions options ''throwOnError'' = None \<longrightarrow>
      useQuery_options queryKey options ''throwOnError'' = Some (Bool False))
   \<and> (queryOptions options x = Some v \<longrightarrow>
      useQuery_options queryKey options x = Some v)"
  by (simp add: useQuery_options_def map_add_def)

text \<open>
  With no engine option from the caller both defaults are there; with
  \<open>{ staleTime: 5000, enabled: ... }\<close> the caller's \<open>staleTime\<close> wins, \<open>enabled\<close> passes
  through and \<open>throwOnError\<close> keeps its default.
\<close>

theorem engine_options_merge_witness:
  "useQuery_options () recording_options ''staleTime'' = Some (Num 30000)
   \<and> useQuery_options () recording_options ''throwOnError'' = Some (Bool False)
   \<and> useQuery_options ()
        (recording_options
           \<lparr>queryOptions := [''staleTime'' \<mapsto> Num 5000, ''enabled'' \<mapsto> Other ''no'']\<rparr>)
        ''staleTime'' = Some (Num 5000)
   \<and> useQuery_options ()
        (recording_options
           \<lparr>queryOptions := [''staleTime'' \<mapsto> Num 5000, ''enabled'' \<mapsto> Other ''no'']\<rparr>)
        ''enabled'' = Some (Other ''no'')
   \<and> useQuery_options ()
        (recording_options
           \<lparr>queryOptions := [''staleTime'' \<mapsto> Num 5000, ''enabled'' \<mapsto> Other ''no'']\<rparr>)
        ''throwOnError'' = Some (Bool False)"
  using engine_options_merge
    [where options = recording_options and queryKey = "()"]
    engine_options_merge
    [where options = "recording_options
           \<lparr>queryOptions := [''staleTime'' \<mapsto> Num 5000, ''enabled'' \<mapsto> Other ''no'']\<rparr>"
       and queryKey = "()" and x = "''staleTime''" and v = "Num 5000"]
    engine_options_merge
    [where options = "recording_options
           \<lparr>queryOptions := [''staleTime'' \<mapsto> Num 5000, ''enabled'' \<mapsto> Other ''no'']\<rparr>"
       and queryKey = "()" and x = "''enabled''" and v = "Other ''no''"]
  by (simp add: recording_options_def)

section \<open>An empty server error\<close>

text \<open>
  C9. When the action resolves to an object whose \<open>serverError\<close> is the empty string,
  the query function behaves as if the property were absent and \<open>onServerError\<close> not
  supplied: the outcome is decided by the checks of \<open>validationErrors\<close> and \<open>data\<close>. So
  with no validation errors and data \<open>d\<close> it returns \<open>d\<close>, and with no validation errors
  and no data it throws the server error \<open>"No data returned from action"\<close>.
\<close>

theorem empty_server_error_falls_through:
  assumes "action (actionInput options) = Resolved (Value r)"
      and "serverError r = Value []"
  shows "queryFn action options s =
           queryFn (createMockAction (r\<lparr>serverError := Undefined\<rparr>))
             (options\<lparr>onServerError := None\<rparr>) s
         \<and> ((validationErrors r = Undefined \<or> validationErrors r = Null) \<and> data r = Value d
              \<longrightarrow> queryFn action options s = (s, Inr d))
         \<and> ((validationErrors r = Undefined \<or> validationErrors r = Null)
              \<and> (data r = Undefined \<or> data r = Null)
              \<longrightarrow> queryFn action options s =
                    (s, Inl (ThrownSafeActionError
                               \<lparr>name = ''SafeActionError'',
                                message = ''No data returned from action'',
                                type = Server, details = NoDetails\<rparr>)))"
proof (intro conjI impI)
  have c: "classify (Value (r\<lparr>serverError := Undefined\<rparr>)) (options\<lparr>onServerError := None\<rparr>) s
             = classify (Value r) options s"
    using assms(2) by (cases "validationErrors r") (simp_all add: classify_def)
  have b: "\<And>error t. catch_block error (options\<lparr>onServerError := None\<rparr>) t
             = catch_block error options t"
    by (simp add: catch_block_def)
  show "queryFn action options s =
           queryFn (createMockAction (r\<lparr>serverError := Undefined\<rparr>))
             (options\<lparr>onServerError := None\<rparr>) s"
    using assms(1) c b
    by (simp add: queryFn_def try_block_def createMockAction_def split: prod.splits sum.splits)
next
  assume "(validationErrors r = Undefined \<or> validationErrors r = Null) \<and> data r = Value d"
  with assms show "queryFn action options s = (s, Inr d)"
    by (auto simp add: queryFn_resolved classify_def)
next
  assume "(validationErrors r = Undefined \<or> validationErrors r = Null)
              \<and> (data r = Undefined \<or> data r = Null)"
  with assms show "queryFn action options s =
                    (s, Inl (ThrownSafeActionError
                               \<lparr>name = ''SafeActionError'',
                                message = ''No data returned from action'',
                                type = Server, details = NoDetails\<rparr>))"
    by (auto simp add: queryFn_resolved classify_def catch_block_def new_SafeActionError_def)
qed

text \<open>At \<open>{ serverError: "", data: 7 }\<close> and at \<open>{ serverError: "" }\<close>.\<close>

theorem empty_server_error_falls_through_witness:
  "queryFn
     (createMockAction
        \<lparr>data = Value (7::int), serverError = Value '''', validationErrors = Undefined\<rparr>)
     recording_options []
   = ([], Inr 7)
   \<and> queryFn
        (createMockAction
           \<lparr>data = Undefined :: int nullable, serverError = Value '''',
            validationErrors = Undefined\<rparr>)
        recording_options []
     = ([], Inl (ThrownSafeActionError
                   \<lparr>name = ''SafeActionError'', message = ''No data returned from action'',
                    type = Server, details = NoDetails\<rparr>))"
  using empty_server_error_falls_through
    [where action = "createMockAction
        \<lparr>data = Value (7::int), serverError = Value '''', validationErrors = Undefined\<rparr>"
       and options = recording_options
       and r = "\<lparr>data = Value (7::int), serverError = Value '''',
                  validationErrors = Undefined\<rparr>"
       and d = 7 and s = "[]", THEN conjunct2]
    empty_server_error_falls_through
    [where action = "createMockAction
        \<lparr>data = Undefined :: int nullable, serverError = Value '''',
         validationErrors = Undefined\<rparr>"
       and options = recording_options
       and r = "\<lparr>data = Undefined :: int nullable, serverError = Value '''',
                  validationErrors = Undefined\<rparr>"
       and s = "[]", THEN conjunct2]
  by (simp add: createMockAction_def)

section \<open>A result that is null or undefined\<close>

text \<open>
  C10. When the action resolves to \<open>null\<close> or \<open>undefined\<close>, every property access goes
  through \<open>?.\<close> and finds nothing, no callback is called, and the query function throws
  a \<open>SafeActionError\<close> of type \<open>server\<close> with message \<open>"No data returned from action"\<close>.
\<close>

theorem nullish_result_is_missing_data:
  assumes "action (actionInput options) = Resolved result"
      and "result = Undefined \<or> result = Null"
  shows "queryFn action options s =
           (s, Inl (ThrownSafeActionError
                      \<lparr>name = ''SafeActionError'', message = ''No data returned from action'',
                       type = Server, details = NoDetails\<rparr>))"
  using assms
  by (auto simp add: queryFn_resolved classify_def catch_block_def new_SafeActionError_def)

theorem nullish_result_is_missing_data_witness:
  "queryFn (mockResolvedValue Null :: unit \<Rightarrow> unit awaited) recording_options []
   = ([], Inl (ThrownSafeActionError
                 \<lparr>name = ''SafeActionError'', message = ''No data returned from action'',
                  type = Server, details = NoDetails\<rparr>))
   \<and> queryFn (mockResolvedValue Undefined :: unit \<Rightarrow> unit awaited) recording_options []
   = ([], Inl (ThrownSafeActionError
                 \<lparr>name = ''SafeActionError'', message = ''No data returned from action'',
                  type = Server, details = NoDetails\<rparr>))"
  using nullish_result_is_missing_data
    [where action = "mockResolvedValue Null :: unit \<Rightarrow> unit awaited"
       and options = recording_options and result = Null and s = "[]"]
    nullish_result_is_missing_data
    [where action = "mockResolvedValue Undefined :: unit \<Rightarrow> unit awaited"
       and options = recording_options and result = Undefined and s = "[]"]
  by (simp add: mockResolvedValue_def)

end
